theory Spec2Isabelle
  imports Main "HOL-Library.Multiset"
begin

section \<open>The user video library of app.js\<close>

text \<open>
  The development embeds the six gated routes of \<^verbatim>\<open>src/app.js\<close> (save-video,
  like-video, unlike-video, unsave-video, saved-videos, liked-videos), the middleware
  \<^verbatim>\<open>requireLogin\<close> in front of them, and the two tables they use.

  What lies outside app.js is a parameter of the model, never a choice of it:
  \<^item> the clock read by \<^verbatim>\<open>CURRENT_TIMESTAMP\<close> (\<open>now\<close>);
  \<^item> the error, if any, that the SQLite driver hands to the callback of the one
    statement a handler issues (\<open>db_error\<close>: disk, lock, full table, ...);
  \<^item> the outcome of every \<^verbatim>\<open>axios.get\<close> (\<open>axios_get\<close>), asked per call, so that two
    requests for the same URL may end differently.

  Request fields follow the data model of the routes: a body field or a path parameter
  is a string or is absent (\<open>None\<close> is JavaScript's \<^verbatim>\<open>undefined\<close>); the session's
  \<^verbatim>\<open>userId\<close> is an integer or absent. The values of the upstream JSON are opaque to
  the handlers and are a type parameter \<open>'j\<close>.
\<close>

subsection \<open>JavaScript truthiness and strings\<close>

text \<open>\<^verbatim>\<open>!x\<close> for a string or undefined: only undefined and the empty string are falsy.\<close>

definition truthy_str :: "string option \<Rightarrow> bool" where
  "truthy_str x = (case x of None \<Rightarrow> False | Some s \<Rightarrow> s \<noteq> [])"

text \<open>\<^verbatim>\<open>!x\<close> for a number or undefined: only undefined and zero are falsy.\<close>

definition truthy_num :: "int option \<Rightarrow> bool" where
  "truthy_num x = (case x of None \<Rightarrow> False | Some n \<Rightarrow> n \<noteq> 0)"

text \<open>A value inside a template literal: \<^verbatim>\<open>`${x}`\<close>; an SQL NULL reads back as null.\<close>

definition template_str :: "string option \<Rightarrow> string" where
  "template_str x = (case x of None \<Rightarrow> ''null'' | Some s \<Rightarrow> s)"

fun starts_with :: "string \<Rightarrow> string \<Rightarrow> bool" where
  "starts_with s [] = True"
| "starts_with [] (p # ps) = False"
| "starts_with (c # cs) (p # ps) = (c = p \<and> starts_with cs ps)"

text \<open>\<^verbatim>\<open>String.prototype.includes\<close>: the pattern occurs at some position.\<close>

fun str_includes :: "string \<Rightarrow> string \<Rightarrow> bool" where
  "str_includes [] p = (p = [])"
| "str_includes (c # cs) p = (starts_with (c # cs) p \<or> str_includes cs p)"

subsection \<open>The tables\<close>

text \<open>
  \<^verbatim>\<open>CREATE TABLE saved_videos\<close> (lines 28 to 39) and \<^verbatim>\<open>CREATE TABLE liked_videos\<close>
  (lines 41 to 49). The columns bound from a request are nullable, so they hold an
  option; \<open>id\<close> is \<^verbatim>\<open>INTEGER PRIMARY KEY AUTOINCREMENT\<close> and the timestamp is filled
  by its \<^verbatim>\<open>DEFAULT CURRENT_TIMESTAMP\<close> on every insert, since no statement of the program
  writes either. Neither table declares a key other than \<open>id\<close>: there is no UNIQUE
  constraint, and SQLite does not enforce the FOREIGN KEY clause unless asked to by a
  pragma, which the program never issues.
\<close>

record saved_row =
  sv_id :: int
  sv_user_id :: "int option"
  sv_video_id :: "string option"
  sv_title :: "string option"
  sv_thumbnail :: "string option"
  sv_channel :: "string option"
  sv_saved_at :: nat

record liked_row =
  lk_id :: int
  lk_user_id :: "int option"
  lk_video_id :: "string option"
  lk_liked_at :: nat

text \<open>
  Rows are kept in insertion order. \<open>saved_seq\<close> and \<open>liked_seq\<close> are the entries of
  \<^verbatim>\<open>sqlite_sequence\<close>: the largest id each table has ever handed out.
\<close>

record database =
  saved_videos :: "saved_row list"
  saved_seq :: int
  liked_videos :: "liked_row list"
  liked_seq :: int

text \<open>SQL equality: a comparison with NULL on either side is not true.\<close>

definition sql_eq :: "'a option \<Rightarrow> 'a option \<Rightarrow> bool" where
  "sql_eq a b = (case a of None \<Rightarrow> False | Some x \<Rightarrow> (case b of None \<Rightarrow> False | Some y \<Rightarrow> x = y))"

text \<open>
  AUTOINCREMENT: one more than the largest id the table holds or has ever held.
\<close>

definition next_rowid :: "int list \<Rightarrow> int \<Rightarrow> int" where
  "next_rowid ids seq = fold max ids seq + 1"

text \<open>
  \<^verbatim>\<open>INSERT INTO saved_videos (user_id, video_id, title, thumbnail, channel) VALUES (?, ?, ?, ?, ?)\<close>;
  the second component is \<^verbatim>\<open>this.lastID\<close>.
\<close>

definition insert_saved ::
  "nat \<Rightarrow> int option \<Rightarrow> string option \<Rightarrow> string option \<Rightarrow> string option \<Rightarrow> string option \<Rightarrow>
   database \<Rightarrow> database \<times> int" where
  "insert_saved t uid vid ti th ch db =
     (let i = next_rowid (map sv_id (saved_videos db)) (saved_seq db);
          r = \<lparr>sv_id = i, sv_user_id = uid, sv_video_id = vid, sv_title = ti,
               sv_thumbnail = th, sv_channel = ch, sv_saved_at = t\<rparr>
      in (db\<lparr>saved_videos := saved_videos db @ [r], saved_seq := i\<rparr>, i))"

text \<open>\<^verbatim>\<open>INSERT INTO liked_videos (user_id, video_id) VALUES (?, ?)\<close>.\<close>

definition insert_liked :: "nat \<Rightarrow> int option \<Rightarrow> string option \<Rightarrow> database \<Rightarrow> database \<times> int" where
  "insert_liked t uid vid db =
     (let i = next_rowid (map lk_id (liked_videos db)) (liked_seq db);
          r = \<lparr>lk_id = i, lk_user_id = uid, lk_video_id = vid, lk_liked_at = t\<rparr>
      in (db\<lparr>liked_videos := liked_videos db @ [r], liked_seq := i\<rparr>, i))"

definition liked_match :: "int option \<Rightarrow> string option \<Rightarrow> liked_row \<Rightarrow> bool" where
  "liked_match uid vid r = (sql_eq (lk_user_id r) uid \<and> sql_eq (lk_video_id r) vid)"

definition saved_match :: "int option \<Rightarrow> string option \<Rightarrow> saved_row \<Rightarrow> bool" where
  "saved_match uid vid r = (sql_eq (sv_user_id r) uid \<and> sql_eq (sv_video_id r) vid)"

text \<open>
  \<^verbatim>\<open>DELETE FROM liked_videos WHERE user_id = ? AND video_id = ?\<close>;
  the second component is \<^verbatim>\<open>this.changes\<close>, the number of rows deleted.
\<close>

definition delete_liked :: "int option \<Rightarrow> string option \<Rightarrow> database \<Rightarrow> database \<times> nat" where
  "delete_liked uid vid db =
     (db\<lparr>liked_videos := filter (\<lambda>r. \<not> liked_match uid vid r) (liked_videos db)\<rparr>,
      length (filter (liked_match uid vid) (liked_videos db)))"

text \<open>\<^verbatim>\<open>DELETE FROM saved_videos WHERE user_id = ? AND video_id = ?\<close>.\<close>

definition delete_saved :: "int option \<Rightarrow> string option \<Rightarrow> database \<Rightarrow> database \<times> nat" where
  "delete_saved uid vid db =
     (db\<lparr>saved_videos := filter (\<lambda>r. \<not> saved_match uid vid r) (saved_videos db)\<rparr>,
      length (filter (saved_match uid vid) (saved_videos db)))"

text \<open>
  \<^verbatim>\<open>ORDER BY ... DESC\<close> on a timestamp. SQL leaves the order of rows with equal
  timestamps open; the model keeps them in insertion order. No statement proved below
  depends on that choice.
\<close>

fun insert_desc :: "('a \<Rightarrow> nat) \<Rightarrow> 'a \<Rightarrow> 'a list \<Rightarrow> 'a list" where
  "insert_desc k x [] = [x]"
| "insert_desc k x (y # ys) = (if k y \<le> k x then x # y # ys else y # insert_desc k x ys)"

definition order_by_desc :: "('a \<Rightarrow> nat) \<Rightarrow> 'a list \<Rightarrow> 'a list" where
  "order_by_desc k xs = foldr (insert_desc k) xs []"

text \<open>The rows of \<^verbatim>\<open>... FROM liked_videos WHERE user_id = ? ORDER BY liked_at DESC\<close>.\<close>

definition liked_rows_of :: "int option \<Rightarrow> database \<Rightarrow> liked_row list" where
  "liked_rows_of uid db =
     order_by_desc lk_liked_at (filter (\<lambda>r. sql_eq (lk_user_id r) uid) (liked_videos db))"

text \<open>\<^verbatim>\<open>SELECT video_id as videoId FROM liked_videos ...\<close>: the spec's listLikedIds.\<close>

definition select_liked :: "int option \<Rightarrow> database \<Rightarrow> string option list" where
  "select_liked uid db = map lk_video_id (liked_rows_of uid db)"

record saved_view =
  v_videoId :: "string option"
  v_title :: "string option"
  v_thumbnail :: "string option"
  v_channel :: "string option"
  v_savedAt :: nat

text \<open>
  \<^verbatim>\<open>SELECT video_id as videoId, title, thumbnail, channel, saved_at as savedAt
  FROM saved_videos WHERE user_id = ? ORDER BY saved_at DESC\<close>.
\<close>

definition select_saved :: "int option \<Rightarrow> database \<Rightarrow> saved_view list" where
  "select_saved uid db =
     map (\<lambda>r. \<lparr>v_videoId = sv_video_id r, v_title = sv_title r, v_thumbnail = sv_thumbnail r,
               v_channel = sv_channel r, v_savedAt = sv_saved_at r\<rparr>)
       (order_by_desc sv_saved_at (filter (\<lambda>r. sql_eq (sv_user_id r) uid) (saved_videos db)))"

subsection \<open>Requests, responses, the environment\<close>

record request =
  session_userId :: "int option"
  body_videoId :: "string option"
  body_title :: "string option"
  body_thumbnail :: "string option"
  body_channel :: "string option"
  params_videoId :: "string option"

text \<open>The object a handler builds for one liked video (lines 316 to 322).\<close>

record 'j enriched =
  e_videoId :: "string option"
  e_title :: "'j option"
  e_thumbnail :: "'j option"
  e_channel :: "'j option"
  e_duration :: "'j option"

text \<open>The JSON bodies the six routes send.\<close>

datatype 'j payload =
    JError string
  | JSaved int
  | JLiked int
  | JSuccess
  | JSavedList "saved_view list"
  | JLikedList "'j enriched list"

record 'j response =
  status :: nat
  body :: "'j payload"

text \<open>
  The four properties of \<^verbatim>\<open>response.data\<close> the handler reads; \<open>None\<close> is a property
  the data does not have.
\<close>

record 'j stream_data =
  d_title :: "'j option"
  d_thumbnailUrl :: "'j option"
  d_uploader :: "'j option"
  d_duration :: "'j option"

text \<open>
  An \<^verbatim>\<open>axios.get\<close> promise rejects (transport error, non-2xx status) or resolves.
  \<open>Resolved None\<close> is a response whose data is null or undefined: reading a property
  of it throws.
\<close>

datatype 'j axios_result = Rejected | Resolved "'j stream_data option"

record 'j env =
  now :: nat
  db_error :: "string option"
  axios_get :: "nat \<Rightarrow> string \<Rightarrow> 'j axios_result"

text \<open>What a request does besides answering: the statements and upstream calls it issues.\<close>

datatype statement =
  InsertSaved | InsertLiked | DeleteLiked | DeleteSaved | SelectSaved | SelectLiked

datatype event = Db statement | Axios string

type_synonym 'j outcome = "'j response \<times> database \<times> event list"

definition json :: "'j payload \<Rightarrow> 'j response" where
  "json p = \<lparr>status = 200, body = p\<rparr>"

definition status_json :: "nat \<Rightarrow> 'j payload \<Rightarrow> 'j response" where
  "status_json c p = \<lparr>status = c, body = p\<rparr>"

subsection \<open>The middleware and the six handlers\<close>

definition PIPED_API_BASE :: string where
  "PIPED_API_BASE = ''https://pipedapi.kavin.rocks''"

text \<open>\<^verbatim>\<open>requireLogin\<close> (lines 74 to 79); \<open>nxt\<close> is the rest of the route.\<close>

definition requireLogin :: "request \<Rightarrow> (database \<Rightarrow> 'j outcome) \<Rightarrow> database \<Rightarrow> 'j outcome" where
  "requireLogin req nxt db =
     (if \<not> truthy_num (session_userId req)
      then (status_json 401 (JError ''Unauthorized''), db, [])
      else nxt db)"

text \<open>The handler of \<^verbatim>\<open>POST /api/save-video\<close> (lines 212 to 229).\<close>

definition save_video :: "'j env \<Rightarrow> request \<Rightarrow> database \<Rightarrow> 'j outcome" where
  "save_video env req db =
     (if \<not> truthy_str (body_videoId req) \<or> \<not> truthy_str (body_title req)
         \<or> \<not> truthy_str (body_thumbnail req) \<or> \<not> truthy_str (body_channel req)
      then (status_json 400 (JError ''All video fields are required''), db, [])
      else (case db_error env of
              Some msg \<Rightarrow> (status_json 500 (JError ''Database error''), db, [Db InsertSaved])
            | None \<Rightarrow>
                (let (db', lastID) =
                       insert_saved (now env) (session_userId req) (body_videoId req)
                         (body_title req) (body_thumbnail req) (body_channel req) db
                 in (json (JSaved lastID), db', [Db InsertSaved]))))"

text \<open>The handler of \<^verbatim>\<open>POST /api/like-video\<close> (lines 231 to 251).\<close>

definition like_video :: "'j env \<Rightarrow> request \<Rightarrow> database \<Rightarrow> 'j outcome" where
  "like_video env req db =
     (if \<not> truthy_str (body_videoId req)
      then (status_json 400 (JError ''Video ID is required''), db, [])
      else (case db_error env of
              Some msg \<Rightarrow>
                (if str_includes msg ''UNIQUE constraint failed''
                 then (status_json 400 (JError ''Video already liked''), db, [Db InsertLiked])
                 else (status_json 500 (JError ''Database error''), db, [Db InsertLiked]))
            | None \<Rightarrow>
                (let (db', lastID) =
                       insert_liked (now env) (session_userId req) (body_videoId req) db
                 in (json (JLiked lastID), db', [Db InsertLiked]))))"

text \<open>The handler of \<^verbatim>\<open>DELETE /api/unlike-video/:videoId\<close> (lines 253 to 269).\<close>

definition unlike_video :: "'j env \<Rightarrow> request \<Rightarrow> database \<Rightarrow> 'j outcome" where
  "unlike_video env req db =
     (case db_error env of
        Some msg \<Rightarrow> (status_json 500 (JError ''Database error''), db, [Db DeleteLiked])
      | None \<Rightarrow>
          (let (db', changes) = delete_liked (session_userId req) (params_videoId req) db
           in if changes = 0
              then (status_json 404 (JError ''Like not found''), db', [Db DeleteLiked])
              else (json JSuccess, db', [Db DeleteLiked])))"

text \<open>The handler of \<^verbatim>\<open>DELETE /api/unsave-video/:videoId\<close> (lines 271 to 287).\<close>

definition unsave_video :: "'j env \<Rightarrow> request \<Rightarrow> database \<Rightarrow> 'j outcome" where
  "unsave_video env req db =
     (case db_error env of
        Some msg \<Rightarrow> (status_json 500 (JError ''Database error''), db, [Db DeleteSaved])
      | None \<Rightarrow>
          (let (db', changes) = delete_saved (session_userId req) (params_videoId req) db
           in if changes = 0
              then (status_json 404 (JError ''Saved video not found''), db', [Db DeleteSaved])
              else (json JSuccess, db', [Db DeleteSaved])))"

text \<open>The handler of \<^verbatim>\<open>GET /api/saved-videos\<close> (lines 289 to 300).\<close>

definition saved_videos_list :: "'j env \<Rightarrow> request \<Rightarrow> database \<Rightarrow> 'j outcome" where
  "saved_videos_list env req db =
     (case db_error env of
        Some msg \<Rightarrow> (status_json 500 (JError ''Database error''), db, [Db SelectSaved])
      | None \<Rightarrow> (json (JSavedList (select_saved (session_userId req) db)), db, [Db SelectSaved]))"

definition stream_url :: "string option \<Rightarrow> string" where
  "stream_url vid = PIPED_API_BASE @ ''/streams/'' @ template_str vid"

text \<open>
  The async arrow function mapped over \<^verbatim>\<open>likes\<close> (lines 314 to 323), for the like at
  position \<open>i\<close>: its promise rejects (\<open>Inl\<close>) when the request rejects or when reading
  \<^verbatim>\<open>response.data.title\<close> throws, and resolves to the enriched object otherwise.
\<close>

definition fetch_details :: "'j env \<Rightarrow> nat \<Rightarrow> string option \<Rightarrow> unit + 'j enriched" where
  "fetch_details env i vid =
     (case axios_get env i (stream_url vid) of
        Rejected \<Rightarrow> Inl ()
      | Resolved None \<Rightarrow> Inl ()
      | Resolved (Some d) \<Rightarrow>
          Inr \<lparr>e_videoId = vid, e_title = d_title d, e_thumbnail = d_thumbnailUrl d,
               e_channel = d_uploader d, e_duration = d_duration d\<rparr>)"

text \<open>
  \<^verbatim>\<open>Promise.all\<close>: rejects as soon as one promise rejects, else resolves to the values
  in the order of the promises. The handler ignores which promise rejected.
\<close>

fun promise_all :: "(unit + 'a) list \<Rightarrow> unit + 'a list" where
  "promise_all [] = Inr []"
| "promise_all (p # ps) =
     (case p of
        Inl e \<Rightarrow> Inl e
      | Inr v \<Rightarrow> (case promise_all ps of Inl e \<Rightarrow> Inl e | Inr vs \<Rightarrow> Inr (v # vs)))"

text \<open>
  The handler of \<^verbatim>\<open>GET /api/liked-videos\<close> (lines 302 to 331). \<^verbatim>\<open>likes.map\<close> runs every
  arrow function up to its first \<^verbatim>\<open>await\<close>, so every request is issued before any
  outcome is known.
\<close>

definition liked_videos_list :: "'j env \<Rightarrow> request \<Rightarrow> database \<Rightarrow> 'j outcome" where
  "liked_videos_list env req db =
     (case db_error env of
        Some msg \<Rightarrow> (status_json 500 (JError ''Database error''), db, [Db SelectLiked])
      | None \<Rightarrow>
          (let likes = select_liked (session_userId req) db;
               calls = map (\<lambda>vid. Axios (stream_url vid)) likes
           in (case promise_all (map (\<lambda>(i, vid). fetch_details env i vid) (enumerate 0 likes)) of
                 Inl e \<Rightarrow>
                   (status_json 500 (JError ''Failed to fetch video details''), db,
                    Db SelectLiked # calls)
               | Inr videoDetails \<Rightarrow> (json (JLikedList videoDetails), db, Db SelectLiked # calls))))"

text \<open>The six gated routes as registered: the middleware, then the handler.\<close>

datatype route = SaveVideo | LikeVideo | UnlikeVideo | UnsaveVideo | SavedVideos | LikedVideos

fun handler :: "route \<Rightarrow> 'j env \<Rightarrow> request \<Rightarrow> database \<Rightarrow> 'j outcome" where
  "handler SaveVideo = save_video"
| "handler LikeVideo = like_video"
| "handler UnlikeVideo = unlike_video"
| "handler UnsaveVideo = unsave_video"
| "handler SavedVideos = saved_videos_list"
| "handler LikedVideos = liked_videos_list"

definition app :: "route \<Rightarrow> 'j env \<Rightarrow> request \<Rightarrow> database \<Rightarrow> 'j outcome" where
  "app r env req db = requireLogin req (handler r env req) db"

subsection \<open>Reading an outcome\<close>

definition response_of :: "'j outcome \<Rightarrow> 'j response" where
  "response_of out = fst out"

definition store_of :: "'j outcome \<Rightarrow> database" where
  "store_of out = fst (snd out)"

definition trace_of :: "'j outcome \<Rightarrow> event list" where
  "trace_of out = snd (snd out)"

subsection \<open>Sample requests, stores and environments\<close>

definition empty_db :: database where
  "empty_db = \<lparr>saved_videos = [], saved_seq = 0, liked_videos = [], liked_seq = 0\<rparr>"

text \<open>User 1 liked A at second 1, B at second 2 and C at second 3.\<close>

definition three_likes_db :: database where
  "three_likes_db =
     \<lparr>saved_videos = [], saved_seq = 0,
      liked_videos =
        [\<lparr>lk_id = 1, lk_user_id = Some 1, lk_video_id = Some ''A'', lk_liked_at = 1\<rparr>,
         \<lparr>lk_id = 2, lk_user_id = Some 1, lk_video_id = Some ''B'', lk_liked_at = 2\<rparr>,
         \<lparr>lk_id = 3, lk_user_id = Some 1, lk_video_id = Some ''C'', lk_liked_at = 3\<rparr>],
      liked_seq = 3\<rparr>"

text \<open>User 1 saved video A twice; user 2 saved it once.\<close>

definition saves_db :: database where
  "saves_db =
     \<lparr>saved_videos =
        [\<lparr>sv_id = 1, sv_user_id = Some 1, sv_video_id = Some ''A'', sv_title = Some ''t'',
          sv_thumbnail = Some ''h'', sv_channel = Some ''c'', sv_saved_at = 1\<rparr>,
         \<lparr>sv_id = 2, sv_user_id = Some 2, sv_video_id = Some ''A'', sv_title = Some ''t'',
          sv_thumbnail = Some ''h'', sv_channel = Some ''c'', sv_saved_at = 2\<rparr>,
         \<lparr>sv_id = 3, sv_user_id = Some 1, sv_video_id = Some ''A'', sv_title = Some ''t'',
          sv_thumbnail = Some ''h'', sv_channel = Some ''c'', sv_saved_at = 3\<rparr>],
      saved_seq = 3, liked_videos = [], liked_seq = 0\<rparr>"

text \<open>What the sample upstream answers for the stream at URL \<open>u\<close>.\<close>

definition sample_data :: "string \<Rightarrow> string stream_data" where
  "sample_data u =
     \<lparr>d_title = Some (''title of '' @ u), d_thumbnailUrl = Some (''thumb of '' @ u),
      d_uploader = Some ''uploader'', d_duration = Some ''212''\<rparr>"

text \<open>
  An environment at second \<open>t\<close> whose store reports no error and whose upstream
  rejects the stream of video \<open>down\<close> and answers every other request.
\<close>

definition sample_env :: "nat \<Rightarrow> string \<Rightarrow> string env" where
  "sample_env t down =
     \<lparr>now = t, db_error = None,
      axios_get = (\<lambda>i u. if u = stream_url (Some down) then Rejected
                           else Resolved (Some (sample_data u)))\<rparr>"

definition anonymous_request :: request where
  "anonymous_request =
     \<lparr>session_userId = None, body_videoId = Some ''A'', body_title = Some ''t'',
      body_thumbnail = Some ''h'', body_channel = Some ''c'', params_videoId = Some ''A''\<rparr>"

definition like_request :: "int \<Rightarrow> string \<Rightarrow> request" where
  "like_request u v =
     \<lparr>session_userId = Some u, body_videoId = Some v, body_title = None,
      body_thumbnail = None, body_channel = None, params_videoId = None\<rparr>"

definition save_request :: "int \<Rightarrow> string \<Rightarrow> string \<Rightarrow> string \<Rightarrow> string \<Rightarrow> request" where
  "save_request u v ti th ch =
     \<lparr>session_userId = Some u, body_videoId = Some v, body_title = Some ti,
      body_thumbnail = Some th, body_channel = Some ch, params_videoId = None\<rparr>"

definition delete_request :: "int \<Rightarrow> string \<Rightarrow> request" where
  "delete_request u v =
     \<lparr>session_userId = Some u, body_videoId = None, body_title = None,
      body_thumbnail = None, body_channel = None, params_videoId = Some v\<rparr>"

definition list_request :: "int \<Rightarrow> request" where
  "list_request u =
     \<lparr>session_userId = Some u, body_videoId = None, body_title = None,
      body_thumbnail = None, body_channel = None, params_videoId = None\<rparr>"

section \<open>Properties\<close>

lemmas outcome_defs = response_of_def store_of_def trace_of_def
lemmas route_defs = app_def requireLogin_def json_def status_json_def
lemmas sample_defs = sample_env_def anonymous_request_def like_request_def save_request_def
  delete_request_def list_request_def empty_db_def three_likes_db_def saves_db_def

subsection \<open>Generated identifiers\<close>

lemma fold_max_ge: "(seq::int) \<le> fold max ids seq"
  by (induction ids arbitrary: seq) (auto intro: order_trans [OF max.cobounded2])

lemma fold_max_mem: "i \<in> set ids \<Longrightarrow> (i::int) \<le> fold max ids seq"
proof (induction ids arbitrary: seq)
  case Nil
  then show ?case by simp
next
  case (Cons a ids)
  show ?case
  proof (cases "i = a")
    case True
    have "a \<le> max a seq" by simp
    also have "\<dots> \<le> fold max ids (max a seq)" by (rule fold_max_ge)
    finally show ?thesis using True by simp
  next
    case False
    with Cons show ?thesis by simp
  qed
qed

lemma fold_max_absorb: "\<forall>i \<in> set ids. i \<le> b \<Longrightarrow> fold max ids (b::int) = b"
  by (induction ids) (auto simp: max_absorb2)

lemma next_rowid_fresh: "next_rowid ids seq \<notin> set ids"
  using fold_max_mem [of "next_rowid ids seq" ids seq] by (auto simp: next_rowid_def)

lemma next_rowid_after_insert:
  "next_rowid (ids @ [next_rowid ids seq]) (next_rowid ids seq) = next_rowid ids seq + 1"
proof -
  have "\<forall>i \<in> set ids. i \<le> next_rowid ids seq"
    using fold_max_mem [of _ ids seq] by (fastforce simp: next_rowid_def)
  then have "fold max ids (next_rowid ids seq) = next_rowid ids seq"
    by (rule fold_max_absorb)
  then show ?thesis
    by (simp add: next_rowid_def)
qed

lemma truthy_num_not_None: "truthy_num x \<Longrightarrow> x \<noteq> None"
  by (cases x) (simp_all add: truthy_num_def)

lemma truthy_str_not_None: "truthy_str x \<Longrightarrow> x \<noteq> None"
  by (cases x) (simp_all add: truthy_str_def)

lemma sql_eq_refl_iff: "sql_eq a a \<longleftrightarrow> a \<noteq> None"
  by (simp add: sql_eq_def split: option.splits)

subsection \<open>The gate\<close>

text \<open>
  Claim C9. A request to any of the six gated routes whose session holds no user id is
  answered 401 by \<^verbatim>\<open>requireLogin\<close>; the handler is never entered, so the store is
  as it was and the request issued no statement and no upstream call.
\<close>

theorem gated_routes_reject_unauthenticated:
  "session_userId req = None \<Longrightarrow>
   app r env req db = (\<lparr>status = 401, body = JError ''Unauthorized''\<rparr>, db, [])"
  by (simp add: route_defs truthy_num_def)

text \<open>The gate at work on an anonymous save over a store that holds rows.\<close>

theorem gated_routes_reject_unauthenticated_witness:
  "session_userId anonymous_request = None
   \<and> app SaveVideo (sample_env 9 ''B'') anonymous_request saves_db
       = (\<lparr>status = 401, body = JError ''Unauthorized''\<rparr>, saves_db, [])
   \<and> app LikedVideos (sample_env 9 ''B'') anonymous_request three_likes_db
       = (\<lparr>status = 401, body = JError ''Unauthorized''\<rparr>, three_likes_db, [])"
  using gated_routes_reject_unauthenticated [of anonymous_request SaveVideo "sample_env 9 ''B''" saves_db]
    gated_routes_reject_unauthenticated [of anonymous_request LikedVideos "sample_env 9 ''B''" three_likes_db]
  by (simp add: anonymous_request_def)

subsection \<open>Saving\<close>

lemma save_video_ok:
  assumes "truthy_num (session_userId req)"
    and "truthy_str (body_videoId req)" and "truthy_str (body_title req)"
    and "truthy_str (body_thumbnail req)" and "truthy_str (body_channel req)"
    and "db_error env = None"
  shows "app SaveVideo env req db =
    (\<lparr>status = 200, body = JSaved (next_rowid (map sv_id (saved_videos db)) (saved_seq db))\<rparr>,
     db\<lparr>saved_videos := saved_videos db @
          [\<lparr>sv_id = next_rowid (map sv_id (saved_videos db)) (saved_seq db),
            sv_user_id = session_userId req, sv_video_id = body_videoId req,
            sv_title = body_title req, sv_thumbnail = body_thumbnail req,
            sv_channel = body_channel req, sv_saved_at = now env\<rparr>],
        saved_seq := next_rowid (map sv_id (saved_videos db)) (saved_seq db)\<rparr>,
     [Db InsertSaved])"
  using assms by (simp add: route_defs save_video_def insert_saved_def Let_def)

lemma save_video_invalid:
  assumes "truthy_num (session_userId req)"
    and "\<not> truthy_str (body_videoId req) \<or> \<not> truthy_str (body_title req)
         \<or> \<not> truthy_str (body_thumbnail req) \<or> \<not> truthy_str (body_channel req)"
  shows "app SaveVideo env req db
           = (\<lparr>status = 400, body = JError ''All video fields are required''\<rparr>, db, [])"
  using assms by (simp add: route_defs save_video_def)

text \<open>
  Claim C6. For a logged-in user, a save request in which one of videoId, title,
  thumbnail, channel is missing or empty is answered 400 and touches nothing: the store
  is unchanged and no statement is issued. When all four are non-empty and the store
  reports no error, the answer is 200 with the identifier of a row appended to
  \<open>saved_videos\<close>; that identifier is carried by no earlier row, and the row holds the
  user and the four fields as sent.
\<close>

theorem save_video_validates_then_inserts:
  assumes "truthy_num (session_userId req)"
  shows "(body_videoId req \<in> {None, Some ''''} \<or> body_title req \<in> {None, Some ''''}
            \<or> body_thumbnail req \<in> {None, Some ''''} \<or> body_channel req \<in> {None, Some ''''}
          \<longrightarrow> app SaveVideo env req db
                = (\<lparr>status = 400, body = JError ''All video fields are required''\<rparr>, db, []))
       \<and> (body_videoId req \<notin> {None, Some ''''} \<and> body_title req \<notin> {None, Some ''''}
            \<and> body_thumbnail req \<notin> {None, Some ''''} \<and> body_channel req \<notin> {None, Some ''''}
            \<and> db_error env = None
          \<longrightarrow> response_of (app SaveVideo env req db)
                = \<lparr>status = 200,
                   body = JSaved (next_rowid (map sv_id (saved_videos db)) (saved_seq db))\<rparr>
              \<and> saved_videos (store_of (app SaveVideo env req db))
                = saved_videos db @
                  [\<lparr>sv_id = next_rowid (map sv_id (saved_videos db)) (saved_seq db),
                    sv_user_id = session_userId req, sv_video_id = body_videoId req,
                    sv_title = body_title req, sv_thumbnail = body_thumbnail req,
                    sv_channel = body_channel req, sv_saved_at = now env\<rparr>]
              \<and> liked_videos (store_of (app SaveVideo env req db)) = liked_videos db
              \<and> next_rowid (map sv_id (saved_videos db)) (saved_seq db)
                  \<notin> sv_id ` set (saved_videos db))"
proof (intro conjI impI)
  assume "body_videoId req \<in> {None, Some ''''} \<or> body_title req \<in> {None, Some ''''}
            \<or> body_thumbnail req \<in> {None, Some ''''} \<or> body_channel req \<in> {None, Some ''''}"
  then have "\<not> truthy_str (body_videoId req) \<or> \<not> truthy_str (body_title req)
         \<or> \<not> truthy_str (body_thumbnail req) \<or> \<not> truthy_str (body_channel req)"
    by (auto simp: truthy_str_def)
  with assms show "app SaveVideo env req db
                = (\<lparr>status = 400, body = JError ''All video fields are required''\<rparr>, db, [])"
    by (rule save_video_invalid)
next
  assume ok: "body_videoId req \<notin> {None, Some ''''} \<and> body_title req \<notin> {None, Some ''''}
            \<and> body_thumbnail req \<notin> {None, Some ''''} \<and> body_channel req \<notin> {None, Some ''''}
            \<and> db_error env = None"
  then have t: "truthy_str (body_videoId req)" "truthy_str (body_title req)"
      "truthy_str (body_thumbnail req)" "truthy_str (body_channel req)"
    by (auto simp: truthy_str_def split: option.splits)
  from ok have e: "db_error env = None" by simp
  note run = save_video_ok [OF assms t e, of db]
  show "response_of (app SaveVideo env req db)
                = \<lparr>status = 200,
                   body = JSaved (next_rowid (map sv_id (saved_videos db)) (saved_seq db))\<rparr>"
    by (simp add: run outcome_defs)
  show "saved_videos (store_of (app SaveVideo env req db))
                = saved_videos db @
                  [\<lparr>sv_id = next_rowid (map sv_id (saved_videos db)) (saved_seq db),
                    sv_user_id = session_userId req, sv_video_id = body_videoId req,
                    sv_title = body_title req, sv_thumbnail = body_thumbnail req,
                    sv_channel = body_channel req, sv_saved_at = now env\<rparr>]"
    by (simp add: run outcome_defs)
  show "liked_videos (store_of (app SaveVideo env req db)) = liked_videos db"
    by (simp add: run outcome_defs)
  show "next_rowid (map sv_id (saved_videos db)) (saved_seq db) \<notin> sv_id ` set (saved_videos db)"
    using next_rowid_fresh [of "map sv_id (saved_videos db)" "saved_seq db"] by simp
qed

text \<open>
  Both branches on the store of three saved rows: user 1 sends an empty title, then a
  complete request at second 9, which gets identifier 4.
\<close>

theorem save_video_validates_then_inserts_witness:
  "truthy_num (session_userId (save_request 1 ''A'' '''' ''h'' ''c''))
   \<and> app SaveVideo (sample_env 9 ''B'') (save_request 1 ''A'' '''' ''h'' ''c'') saves_db
       = (\<lparr>status = 400, body = JError ''All video fields are required''\<rparr>, saves_db, [])
   \<and> db_error (sample_env 9 ''B'') = None
   \<and> response_of (app SaveVideo (sample_env 9 ''B'') (save_request 1 ''A'' ''t'' ''h'' ''c'') saves_db)
       = \<lparr>status = 200, body = JSaved 4\<rparr>
   \<and> saved_videos (store_of
         (app SaveVideo (sample_env 9 ''B'') (save_request 1 ''A'' ''t'' ''h'' ''c'') saves_db))
       = saved_videos saves_db @
         [\<lparr>sv_id = 4, sv_user_id = Some 1, sv_video_id = Some ''A'', sv_title = Some ''t'',
           sv_thumbnail = Some ''h'', sv_channel = Some ''c'', sv_saved_at = 9\<rparr>]"
  using save_video_validates_then_inserts
      [of "save_request 1 ''A'' '''' ''h'' ''c''" "sample_env 9 ''B''" saves_db]
    save_video_validates_then_inserts
      [of "save_request 1 ''A'' ''t'' ''h'' ''c''" "sample_env 9 ''B''" saves_db]
  by (simp add: sample_defs truthy_num_def next_rowid_def)

text \<open>
  Claim C5. A logged-in user who saves the same video twice, with all four fields
  non-empty and no store error, is answered 200 both times. The two identifiers differ
  (the second is the first plus one, and the first is carried by no earlier row), and
  the table ends with two rows for that user and video, one per request: nothing is
  deduplicated.
\<close>

theorem save_video_twice_two_rows:
  assumes "truthy_num (session_userId req)"
    and "body_videoId req = Some v" and "v \<noteq> []"
    and "body_title req = Some ti" and "ti \<noteq> []"
    and "body_thumbnail req = Some th" and "th \<noteq> []"
    and "body_channel req = Some ch" and "ch \<noteq> []"
    and "db_error env1 = None" and "db_error env2 = None"
  shows "\<exists>i. i \<notin> sv_id ` set (saved_videos db)
       \<and> response_of (app SaveVideo env1 req db) = \<lparr>status = 200, body = JSaved i\<rparr>
       \<and> response_of (app SaveVideo env2 req (store_of (app SaveVideo env1 req db)))
           = \<lparr>status = 200, body = JSaved (i + 1)\<rparr>
       \<and> saved_videos (store_of (app SaveVideo env2 req (store_of (app SaveVideo env1 req db))))
           = saved_videos db @
             [\<lparr>sv_id = i, sv_user_id = session_userId req, sv_video_id = Some v,
               sv_title = Some ti, sv_thumbnail = Some th, sv_channel = Some ch,
               sv_saved_at = now env1\<rparr>,
              \<lparr>sv_id = i + 1, sv_user_id = session_userId req, sv_video_id = Some v,
               sv_title = Some ti, sv_thumbnail = Some th, sv_channel = Some ch,
               sv_saved_at = now env2\<rparr>]"
proof -
  let ?i = "next_rowid (map sv_id (saved_videos db)) (saved_seq db)"
  let ?db1 = "store_of (app SaveVideo env1 req db)"
  have t: "truthy_str (body_videoId req)" "truthy_str (body_title req)"
      "truthy_str (body_thumbnail req)" "truthy_str (body_channel req)"
    using assms by (simp_all add: truthy_str_def)
  note first = save_video_ok [OF assms(1) t assms(10), of db]
  note second = save_video_ok [OF assms(1) t assms(11), of ?db1]
  have fresh: "?i \<notin> sv_id ` set (saved_videos db)"
    using next_rowid_fresh [of "map sv_id (saved_videos db)" "saved_seq db"] by simp
  have r1: "response_of (app SaveVideo env1 req db) = \<lparr>status = 200, body = JSaved ?i\<rparr>"
    by (simp add: first outcome_defs)
  have s1: "saved_videos ?db1 = saved_videos db @
             [\<lparr>sv_id = ?i, sv_user_id = session_userId req, sv_video_id = Some v,
               sv_title = Some ti, sv_thumbnail = Some th, sv_channel = Some ch,
               sv_saved_at = now env1\<rparr>]"
    and q1: "saved_seq ?db1 = ?i"
    using assms by (simp_all add: first outcome_defs)
  have n2: "next_rowid (map sv_id (saved_videos ?db1)) (saved_seq ?db1) = ?i + 1"
    unfolding s1 q1 using next_rowid_after_insert [of "map sv_id (saved_videos db)" "saved_seq db"]
    by simp
  have r2: "response_of (app SaveVideo env2 req ?db1) = \<lparr>status = 200, body = JSaved (?i + 1)\<rparr>"
    unfolding second n2 by (simp add: outcome_defs)
  have s2: "saved_videos (store_of (app SaveVideo env2 req ?db1))
           = saved_videos db @
             [\<lparr>sv_id = ?i, sv_user_id = session_userId req, sv_video_id = Some v,
               sv_title = Some ti, sv_thumbnail = Some th, sv_channel = Some ch,
               sv_saved_at = now env1\<rparr>,
              \<lparr>sv_id = ?i + 1, sv_user_id = session_userId req, sv_video_id = Some v,
               sv_title = Some ti, sv_thumbnail = Some th, sv_channel = Some ch,
               sv_saved_at = now env2\<rparr>]"
    unfolding second n2 using assms s1 by (simp add: outcome_defs)
  from fresh r1 r2 s2 show ?thesis by blast
qed

text \<open>User 1 saves video A at second 5 and again at second 6, starting from no rows.\<close>

theorem save_video_twice_two_rows_witness:
  "truthy_num (session_userId (save_request 1 ''A'' ''t'' ''h'' ''c''))
   \<and> db_error (sample_env 5 ''B'') = None \<and> db_error (sample_env 6 ''B'') = None
   \<and> response_of (app SaveVideo (sample_env 5 ''B'') (save_request 1 ''A'' ''t'' ''h'' ''c'') empty_db)
       = \<lparr>status = 200, body = JSaved 1\<rparr>
   \<and> response_of (app SaveVideo (sample_env 6 ''B'') (save_request 1 ''A'' ''t'' ''h'' ''c'')
         (store_of (app SaveVideo (sample_env 5 ''B'') (save_request 1 ''A'' ''t'' ''h'' ''c'') empty_db)))
       = \<lparr>status = 200, body = JSaved 2\<rparr>
   \<and> saved_videos (store_of (app SaveVideo (sample_env 6 ''B'') (save_request 1 ''A'' ''t'' ''h'' ''c'')
         (store_of (app SaveVideo (sample_env 5 ''B'') (save_request 1 ''A'' ''t'' ''h'' ''c'') empty_db))))
       = [\<lparr>sv_id = 1, sv_user_id = Some 1, sv_video_id = Some ''A'', sv_title = Some ''t'',
           sv_thumbnail = Some ''h'', sv_channel = Some ''c'', sv_saved_at = 5\<rparr>,
          \<lparr>sv_id = 2, sv_user_id = Some 1, sv_video_id = Some ''A'', sv_title = Some ''t'',
           sv_thumbnail = Some ''h'', sv_channel = Some ''c'', sv_saved_at = 6\<rparr>]"
proof -
  have h: "truthy_num (session_userId (save_request 1 ''A'' ''t'' ''h'' ''c''))"
    "db_error (sample_env 5 ''B'') = None" "db_error (sample_env 6 ''B'') = None"
    by (simp_all add: sample_defs truthy_num_def)
  have f: "body_videoId (save_request 1 ''A'' ''t'' ''h'' ''c'') = Some ''A''"
    "body_title (save_request 1 ''A'' ''t'' ''h'' ''c'') = Some ''t''"
    "body_thumbnail (save_request 1 ''A'' ''t'' ''h'' ''c'') = Some ''h''"
    "body_channel (save_request 1 ''A'' ''t'' ''h'' ''c'') = Some ''c''"
    by (simp_all add: save_request_def)
  from save_video_twice_two_rows [OF h(1) f(1) _ f(2) _ f(3) _ f(4) _ h(2) h(3), of empty_db]
  obtain i where
    r1: "response_of (app SaveVideo (sample_env 5 ''B'') (save_request 1 ''A'' ''t'' ''h'' ''c'') empty_db)
       = \<lparr>status = 200, body = JSaved i\<rparr>"
    and r2: "response_of (app SaveVideo (sample_env 6 ''B'') (save_request 1 ''A'' ''t'' ''h'' ''c'')
         (store_of (app SaveVideo (sample_env 5 ''B'') (save_request 1 ''A'' ''t'' ''h'' ''c'') empty_db)))
       = \<lparr>status = 200, body = JSaved (i + 1)\<rparr>"
    and s2: "saved_videos (store_of (app SaveVideo (sample_env 6 ''B'') (save_request 1 ''A'' ''t'' ''h'' ''c'')
         (store_of (app SaveVideo (sample_env 5 ''B'') (save_request 1 ''A'' ''t'' ''h'' ''c'') empty_db))))
       = saved_videos empty_db @
         [\<lparr>sv_id = i, sv_user_id = session_userId (save_request 1 ''A'' ''t'' ''h'' ''c''),
           sv_video_id = Some ''A'', sv_title = Some ''t'', sv_thumbnail = Some ''h'',
           sv_channel = Some ''c'', sv_saved_at = now (sample_env 5 ''B'')\<rparr>,
          \<lparr>sv_id = i + 1, sv_user_id = session_userId (save_request 1 ''A'' ''t'' ''h'' ''c''),
           sv_video_id = Some ''A'', sv_title = Some ''t'', sv_thumbnail = Some ''h'',
           sv_channel = Some ''c'', sv_saved_at = now (sample_env 6 ''B'')\<rparr>]"
    by auto
  have "response_of (app SaveVideo (sample_env 5 ''B'') (save_request 1 ''A'' ''t'' ''h'' ''c'') empty_db)
       = \<lparr>status = 200, body = JSaved 1\<rparr>"
    by (simp add: route_defs outcome_defs sample_defs save_video_def insert_saved_def
        truthy_num_def truthy_str_def next_rowid_def)
  with r1 have i: "i = 1" by simp
  show ?thesis
    using h r1 r2 s2 unfolding i by (simp add: sample_defs)
qed

subsection \<open>Deleting\<close>

lemma filter_liked_none:
  "filter (liked_match u v) rows = [] \<Longrightarrow> filter (\<lambda>r. \<not> liked_match u v r) rows = rows"
  by (induction rows) (auto split: if_splits)

lemma filter_saved_none:
  "filter (saved_match u v) rows = [] \<Longrightarrow> filter (\<lambda>r. \<not> saved_match u v r) rows = rows"
  by (induction rows) (auto split: if_splits)

lemma length_filter_split:
  "length (filter P xs) + length (filter (\<lambda>x. \<not> P x) xs) = length xs"
  by (induction xs) auto

lemma unsave_video_run:
  assumes "truthy_num (session_userId req)" and "db_error env = None"
  shows "app UnsaveVideo env req db =
    ((if filter (saved_match (session_userId req) (params_videoId req)) (saved_videos db) = []
      then \<lparr>status = 404, body = JError ''Saved video not found''\<rparr>
      else \<lparr>status = 200, body = JSuccess\<rparr>),
     db\<lparr>saved_videos :=
          filter (\<lambda>r. \<not> saved_match (session_userId req) (params_videoId req) r) (saved_videos db)\<rparr>,
     [Db DeleteSaved])"
  using assms by (simp add: route_defs unsave_video_def delete_saved_def)

lemma unlike_video_run:
  assumes "truthy_num (session_userId req)" and "db_error env = None"
  shows "app UnlikeVideo env req db =
    ((if filter (liked_match (session_userId req) (params_videoId req)) (liked_videos db) = []
      then \<lparr>status = 404, body = JError ''Like not found''\<rparr>
      else \<lparr>status = 200, body = JSuccess\<rparr>),
     db\<lparr>liked_videos :=
          filter (\<lambda>r. \<not> liked_match (session_userId req) (params_videoId req) r) (liked_videos db)\<rparr>,
     [Db DeleteLiked])"
  using assms by (simp add: route_defs unlike_video_def delete_liked_def)

text \<open>
  Claim C4. For a logged-in user and no store error: when at least one saved row
  matches the user and the videoId of the path, one unsave request is answered 200 and
  the table afterwards is the old table without the matching rows, so all of them are
  gone, however many there were, and every other row is kept. When no row matches, the
  answer is 404 and the store is unchanged.
\<close>

theorem unsave_video_removes_all_or_not_found:
  assumes "truthy_num (session_userId req)" and "db_error env = None"
  shows "(1 \<le> length (filter (saved_match (session_userId req) (params_videoId req)) (saved_videos db))
          \<longrightarrow> response_of (app UnsaveVideo env req db) = \<lparr>status = 200, body = JSuccess\<rparr>
            \<and> saved_videos (store_of (app UnsaveVideo env req db))
                = filter (\<lambda>r. \<not> saved_match (session_userId req) (params_videoId req) r)
                    (saved_videos db)
            \<and> filter (saved_match (session_userId req) (params_videoId req))
                (saved_videos (store_of (app UnsaveVideo env req db))) = []
            \<and> length (saved_videos (store_of (app UnsaveVideo env req db)))
                + length (filter (saved_match (session_userId req) (params_videoId req))
                    (saved_videos db))
                = length (saved_videos db))
       \<and> (length (filter (saved_match (session_userId req) (params_videoId req)) (saved_videos db)) = 0
          \<longrightarrow> app UnsaveVideo env req db
                = (\<lparr>status = 404, body = JError ''Saved video not found''\<rparr>, db, [Db DeleteSaved]))"
proof (intro conjI impI)
  let ?m = "saved_match (session_userId req) (params_videoId req)"
  assume "1 \<le> length (filter ?m (saved_videos db))"
  then have nz: "filter ?m (saved_videos db) \<noteq> []" by auto
  show "response_of (app UnsaveVideo env req db) = \<lparr>status = 200, body = JSuccess\<rparr>"
    using nz by (simp add: unsave_video_run [OF assms] outcome_defs)
  show s: "saved_videos (store_of (app UnsaveVideo env req db))
                = filter (\<lambda>r. \<not> ?m r) (saved_videos db)"
    by (simp add: unsave_video_run [OF assms] outcome_defs)
  show "filter ?m (saved_videos (store_of (app UnsaveVideo env req db))) = []"
    unfolding s by (simp add: filter_empty_conv)
  show "length (saved_videos (store_of (app UnsaveVideo env req db)))
                + length (filter ?m (saved_videos db)) = length (saved_videos db)"
    unfolding s using length_filter_split [of ?m "saved_videos db"] by simp
next
  let ?m = "saved_match (session_userId req) (params_videoId req)"
  assume "length (filter ?m (saved_videos db)) = 0"
  then have z: "filter ?m (saved_videos db) = []" by simp
  show "app UnsaveVideo env req db
                = (\<lparr>status = 404, body = JError ''Saved video not found''\<rparr>, db, [Db DeleteSaved])"
    using z by (simp add: unsave_video_run [OF assms] filter_saved_none)
qed

text \<open>
  On the store where user 1 saved video A twice and user 2 once: user 1 unsaves A and
  only the row of user 2 is left; user 1 unsaves Z, which was never saved.
\<close>

theorem unsave_video_removes_all_or_not_found_witness:
  "truthy_num (session_userId (delete_request 1 ''A'')) \<and> db_error (sample_env 9 ''B'') = None
   \<and> length (filter (saved_match (Some 1) (Some ''A'')) (saved_videos saves_db)) = 2
   \<and> response_of (app UnsaveVideo (sample_env 9 ''B'') (delete_request 1 ''A'') saves_db)
       = \<lparr>status = 200, body = JSuccess\<rparr>
   \<and> saved_videos (store_of (app UnsaveVideo (sample_env 9 ''B'') (delete_request 1 ''A'') saves_db))
       = [\<lparr>sv_id = 2, sv_user_id = Some 2, sv_video_id = Some ''A'', sv_title = Some ''t'',
           sv_thumbnail = Some ''h'', sv_channel = Some ''c'', sv_saved_at = 2\<rparr>]
   \<and> length (filter (saved_match (Some 1) (Some ''Z'')) (saved_videos saves_db)) = 0
   \<and> app UnsaveVideo (sample_env 9 ''B'') (delete_request 1 ''Z'') saves_db
       = (\<lparr>status = 404, body = JError ''Saved video not found''\<rparr>, saves_db, [Db DeleteSaved])"
  using unsave_video_removes_all_or_not_found
      [of "delete_request 1 ''A''" "sample_env 9 ''B''" saves_db]
    unsave_video_removes_all_or_not_found
      [of "delete_request 1 ''Z''" "sample_env 9 ''B''" saves_db]
  by (simp add: sample_defs truthy_num_def saved_match_def sql_eq_def)

subsection \<open>Liking and unliking\<close>

lemma like_video_ok:
  assumes "truthy_num (session_userId req)" and "truthy_str (body_videoId req)"
    and "db_error env = None"
  shows "app LikeVideo env req db =
    (\<lparr>status = 200, body = JLiked (next_rowid (map lk_id (liked_videos db)) (liked_seq db))\<rparr>,
     db\<lparr>liked_videos := liked_videos db @
          [\<lparr>lk_id = next_rowid (map lk_id (liked_videos db)) (liked_seq db),
            lk_user_id = session_userId req, lk_video_id = body_videoId req,
            lk_liked_at = now env\<rparr>],
        liked_seq := next_rowid (map lk_id (liked_videos db)) (liked_seq db)\<rparr>,
     [Db InsertLiked])"
  using assms by (simp add: route_defs like_video_def insert_liked_def Let_def)

lemma like_video_success_only_if:
  assumes "response_of (app LikeVideo env req db) = \<lparr>status = 200, body = JLiked i\<rparr>"
  shows "truthy_num (session_userId req) \<and> truthy_str (body_videoId req) \<and> db_error env = None"
proof (intro conjI)
  show "truthy_num (session_userId req)"
    using assms by (auto simp: route_defs outcome_defs split: if_splits)
  then have h: "response_of (like_video env req db) = \<lparr>status = 200, body = JLiked i\<rparr>"
    using assms by (simp add: route_defs)
  show "truthy_str (body_videoId req)"
    using h by (auto simp: like_video_def outcome_defs status_json_def split: if_splits)
  then show "db_error env = None"
    using h by (auto simp: like_video_def outcome_defs status_json_def split: if_splits option.splits)
qed

text \<open>
  Claim C1 asks that a second like of the same video by the same user be rejected as a
  duplicate and leave one row. In the code nothing rejects it: \<open>liked_videos\<close> is
  created without a uniqueness constraint on (user_id, video_id), so the INSERT of the
  second request runs like the first. For a logged-in user, a non-empty videoId and no
  store error, both requests are answered 200 with identifiers i and i + 1, the table
  gains two rows, and the number of rows for that user and video grows by two.
\<close>

theorem like_video_twice_inserts_second_row:
  assumes "truthy_num (session_userId req)"
    and "body_videoId req = Some v" and "v \<noteq> []"
    and "db_error env1 = None" and "db_error env2 = None"
  shows "\<exists>i. response_of (app LikeVideo env1 req db) = \<lparr>status = 200, body = JLiked i\<rparr>
       \<and> response_of (app LikeVideo env2 req (store_of (app LikeVideo env1 req db)))
           = \<lparr>status = 200, body = JLiked (i + 1)\<rparr>
       \<and> liked_videos (store_of (app LikeVideo env2 req (store_of (app LikeVideo env1 req db))))
           = liked_videos db @
             [\<lparr>lk_id = i, lk_user_id = session_userId req, lk_video_id = Some v,
               lk_liked_at = now env1\<rparr>,
              \<lparr>lk_id = i + 1, lk_user_id = session_userId req, lk_video_id = Some v,
               lk_liked_at = now env2\<rparr>]
       \<and> length (filter (liked_match (session_userId req) (Some v))
            (liked_videos (store_of (app LikeVideo env2 req (store_of (app LikeVideo env1 req db))))))
           = length (filter (liked_match (session_userId req) (Some v)) (liked_videos db)) + 2"
proof -
  let ?i = "next_rowid (map lk_id (liked_videos db)) (liked_seq db)"
  let ?db1 = "store_of (app LikeVideo env1 req db)"
  let ?db2 = "store_of (app LikeVideo env2 req ?db1)"
  let ?m = "liked_match (session_userId req) (Some v)"
  have t: "truthy_str (body_videoId req)"
    using assms by (simp add: truthy_str_def)
  note first = like_video_ok [OF assms(1) t assms(4), of db]
  note second = like_video_ok [OF assms(1) t assms(5), of ?db1]
  have r1: "response_of (app LikeVideo env1 req db) = \<lparr>status = 200, body = JLiked ?i\<rparr>"
    by (simp add: first outcome_defs)
  have s1: "liked_videos ?db1 = liked_videos db @
             [\<lparr>lk_id = ?i, lk_user_id = session_userId req, lk_video_id = Some v,
               lk_liked_at = now env1\<rparr>]"
    and q1: "liked_seq ?db1 = ?i"
    using assms by (simp_all add: first outcome_defs)
  have n2: "next_rowid (map lk_id (liked_videos ?db1)) (liked_seq ?db1) = ?i + 1"
    unfolding s1 q1 using next_rowid_after_insert [of "map lk_id (liked_videos db)" "liked_seq db"]
    by simp
  have r2: "response_of (app LikeVideo env2 req ?db1) = \<lparr>status = 200, body = JLiked (?i + 1)\<rparr>"
    unfolding second n2 by (simp add: outcome_defs)
  have s2: "liked_videos ?db2 = liked_videos db @
             [\<lparr>lk_id = ?i, lk_user_id = session_userId req, lk_video_id = Some v,
               lk_liked_at = now env1\<rparr>,
              \<lparr>lk_id = ?i + 1, lk_user_id = session_userId req, lk_video_id = Some v,
               lk_liked_at = now env2\<rparr>]"
    unfolding second n2 using assms s1 by (simp add: outcome_defs)
  have "session_userId req \<noteq> None"
    using assms(1) by (rule truthy_num_not_None)
  then have c2: "length (filter ?m (liked_videos ?db2)) = length (filter ?m (liked_videos db)) + 2"
    unfolding s2 by (simp add: liked_match_def sql_eq_refl_iff)
  from r1 r2 s2 c2 show ?thesis by blast
qed

text \<open>
  The failing input of C1: user 1 likes video A at second 5 and again at second 7 on an
  empty store. The second request is answered 200 and the table holds two rows for
  (1, A).
\<close>

theorem like_video_twice_inserts_second_row_witness:
  "truthy_num (session_userId (like_request 1 ''A''))
   \<and> db_error (sample_env 5 ''B'') = None \<and> db_error (sample_env 7 ''B'') = None
   \<and> response_of (app LikeVideo (sample_env 7 ''B'') (like_request 1 ''A'')
         (store_of (app LikeVideo (sample_env 5 ''B'') (like_request 1 ''A'') empty_db)))
       = \<lparr>status = 200, body = JLiked 2\<rparr>
   \<and> liked_videos (store_of (app LikeVideo (sample_env 7 ''B'') (like_request 1 ''A'')
         (store_of (app LikeVideo (sample_env 5 ''B'') (like_request 1 ''A'') empty_db))))
       = [\<lparr>lk_id = 1, lk_user_id = Some 1, lk_video_id = Some ''A'', lk_liked_at = 5\<rparr>,
          \<lparr>lk_id = 2, lk_user_id = Some 1, lk_video_id = Some ''A'', lk_liked_at = 7\<rparr>]
   \<and> length (filter (liked_match (Some 1) (Some ''A''))
        (liked_videos (store_of (app LikeVideo (sample_env 7 ''B'') (like_request 1 ''A'')
           (store_of (app LikeVideo (sample_env 5 ''B'') (like_request 1 ''A'') empty_db)))))) = 2"
proof -
  have h: "truthy_num (session_userId (like_request 1 ''A''))"
    "db_error (sample_env 5 ''B'') = None" "db_error (sample_env 7 ''B'') = None"
    by (simp_all add: sample_defs truthy_num_def)
  have f: "body_videoId (like_request 1 ''A'') = Some ''A''"
    by (simp add: like_request_def)
  from like_video_twice_inserts_second_row [OF h(1) f _ h(2) h(3), of empty_db]
  obtain i where
    r1: "response_of (app LikeVideo (sample_env 5 ''B'') (like_request 1 ''A'') empty_db)
       = \<lparr>status = 200, body = JLiked i\<rparr>"
    and r2: "response_of (app LikeVideo (sample_env 7 ''B'') (like_request 1 ''A'')
         (store_of (app LikeVideo (sample_env 5 ''B'') (like_request 1 ''A'') empty_db)))
       = \<lparr>status = 200, body = JLiked (i + 1)\<rparr>"
    and s2: "liked_videos (store_of (app LikeVideo (sample_env 7 ''B'') (like_request 1 ''A'')
         (store_of (app LikeVideo (sample_env 5 ''B'') (like_request 1 ''A'') empty_db))))
       = liked_videos empty_db @
         [\<lparr>lk_id = i, lk_user_id = session_userId (like_request 1 ''A''),
           lk_video_id = Some ''A'', lk_liked_at = now (sample_env 5 ''B'')\<rparr>,
          \<lparr>lk_id = i + 1, lk_user_id = session_userId (like_request 1 ''A''),
           lk_video_id = Some ''A'', lk_liked_at = now (sample_env 7 ''B'')\<rparr>]"
    by auto
  have "response_of (app LikeVideo (sample_env 5 ''B'') (like_request 1 ''A'') empty_db)
       = \<lparr>status = 200, body = JLiked 1\<rparr>"
    by (simp add: route_defs outcome_defs sample_defs like_video_def insert_liked_def
        truthy_num_def truthy_str_def next_rowid_def)
  with r1 have i: "i = 1" by simp
  show ?thesis
    using h r2 unfolding s2 i by (simp add: sample_defs liked_match_def sql_eq_def)
qed

text \<open>
  Claim C7. For a logged-in user and no store error on the DELETE: when no liked row
  matches the user and the videoId of the path, unlike is answered 404 and the store is
  unchanged. When a like request of the same user for the same videoId has just been
  answered 200, unlike on the resulting store is answered 200 and leaves no row for
  that user and video.
\<close>

theorem unlike_video_not_found_or_removes:
  assumes "truthy_num (session_userId ureq)" and "db_error uenv = None"
  shows "(filter (liked_match (session_userId ureq) (params_videoId ureq)) (liked_videos db) = []
          \<longrightarrow> app UnlikeVideo uenv ureq db
                = (\<lparr>status = 404, body = JError ''Like not found''\<rparr>, db, [Db DeleteLiked]))
       \<and> (session_userId lreq = session_userId ureq \<and> body_videoId lreq = params_videoId ureq
            \<and> response_of (app LikeVideo lenv lreq db) = \<lparr>status = 200, body = JLiked i\<rparr>
          \<longrightarrow> response_of (app UnlikeVideo uenv ureq (store_of (app LikeVideo lenv lreq db)))
                = \<lparr>status = 200, body = JSuccess\<rparr>
            \<and> filter (liked_match (session_userId ureq) (params_videoId ureq))
                (liked_videos (store_of (app UnlikeVideo uenv ureq
                   (store_of (app LikeVideo lenv lreq db))))) = [])"
proof (intro conjI impI)
  assume "filter (liked_match (session_userId ureq) (params_videoId ureq)) (liked_videos db) = []"
  then show "app UnlikeVideo uenv ureq db
                = (\<lparr>status = 404, body = JError ''Like not found''\<rparr>, db, [Db DeleteLiked])"
    by (simp add: unlike_video_run [OF assms] filter_liked_none)
next
  let ?m = "liked_match (session_userId ureq) (params_videoId ureq)"
  let ?db1 = "store_of (app LikeVideo lenv lreq db)"
  assume a: "session_userId lreq = session_userId ureq \<and> body_videoId lreq = params_videoId ureq
            \<and> response_of (app LikeVideo lenv lreq db) = \<lparr>status = 200, body = JLiked i\<rparr>"
  then have ok: "truthy_num (session_userId lreq)" "truthy_str (body_videoId lreq)"
      "db_error lenv = None"
    using like_video_success_only_if [of lenv lreq db i] by simp_all
  let ?r = "\<lparr>lk_id = next_rowid (map lk_id (liked_videos db)) (liked_seq db),
            lk_user_id = session_userId lreq, lk_video_id = body_videoId lreq,
            lk_liked_at = now lenv\<rparr>"
  have rows: "liked_videos ?db1 = liked_videos db @ [?r]"
    by (simp add: like_video_ok [OF ok] outcome_defs)
  have "?m ?r"
    using a ok(1,2)
    by (simp add: liked_match_def sql_eq_refl_iff truthy_num_not_None truthy_str_not_None)
  then have ne: "filter ?m (liked_videos ?db1) \<noteq> []"
    unfolding rows by simp
  show "response_of (app UnlikeVideo uenv ureq ?db1) = \<lparr>status = 200, body = JSuccess\<rparr>"
    using ne by (simp add: unlike_video_run [OF assms] outcome_defs)
  show "filter ?m (liked_videos (store_of (app UnlikeVideo uenv ureq ?db1))) = []"
    by (simp add: unlike_video_run [OF assms] outcome_defs filter_empty_conv)
qed

text \<open>
  On the store of three likes: user 1 unlikes Z, never liked; then user 1 likes D at
  second 8 and unlikes it at second 9, which leaves the three earlier rows.
\<close>

theorem unlike_video_not_found_or_removes_witness:
  "truthy_num (session_userId (delete_request 1 ''Z'')) \<and> db_error (sample_env 9 ''B'') = None
   \<and> filter (liked_match (Some 1) (Some ''Z'')) (liked_videos three_likes_db) = []
   \<and> app UnlikeVideo (sample_env 9 ''B'') (delete_request 1 ''Z'') three_likes_db
       = (\<lparr>status = 404, body = JError ''Like not found''\<rparr>, three_likes_db, [Db DeleteLiked])
   \<and> response_of (app LikeVideo (sample_env 8 ''B'') (like_request 1 ''D'') three_likes_db)
       = \<lparr>status = 200, body = JLiked 4\<rparr>
   \<and> response_of (app UnlikeVideo (sample_env 9 ''B'') (delete_request 1 ''D'')
         (store_of (app LikeVideo (sample_env 8 ''B'') (like_request 1 ''D'') three_likes_db)))
       = \<lparr>status = 200, body = JSuccess\<rparr>
   \<and> liked_videos (store_of (app UnlikeVideo (sample_env 9 ''B'') (delete_request 1 ''D'')
         (store_of (app LikeVideo (sample_env 8 ''B'') (like_request 1 ''D'') three_likes_db))))
       = liked_videos three_likes_db"
proof -
  have h: "truthy_num (session_userId (delete_request 1 ''Z''))"
    "truthy_num (session_userId (delete_request 1 ''D''))"
    "db_error (sample_env 9 ''B'') = None"
    by (simp_all add: sample_defs truthy_num_def)
  have z: "filter (liked_match (Some 1) (Some ''Z'')) (liked_videos three_likes_db) = []"
    by (simp add: sample_defs liked_match_def sql_eq_def)
  have l: "response_of (app LikeVideo (sample_env 8 ''B'') (like_request 1 ''D'') three_likes_db)
       = \<lparr>status = 200, body = JLiked 4\<rparr>"
    by (simp add: route_defs outcome_defs sample_defs like_video_def insert_liked_def
        truthy_num_def truthy_str_def next_rowid_def)
  have nf: "app UnlikeVideo (sample_env 9 ''B'') (delete_request 1 ''Z'') three_likes_db
       = (\<lparr>status = 404, body = JError ''Like not found''\<rparr>, three_likes_db, [Db DeleteLiked])"
    using unlike_video_not_found_or_removes [OF h(1) h(3),
        of three_likes_db "like_request 1 ''D''" "sample_env 8 ''B''" 4] z
    by (simp add: delete_request_def)
  have rm: "response_of (app UnlikeVideo (sample_env 9 ''B'') (delete_request 1 ''D'')
         (store_of (app LikeVideo (sample_env 8 ''B'') (like_request 1 ''D'') three_likes_db)))
       = \<lparr>status = 200, body = JSuccess\<rparr>"
    using unlike_video_not_found_or_removes [OF h(2) h(3),
        of three_likes_db "like_request 1 ''D''" "sample_env 8 ''B''" 4] l
    by (simp add: delete_request_def like_request_def)
  have st: "liked_videos (store_of (app UnlikeVideo (sample_env 9 ''B'') (delete_request 1 ''D'')
         (store_of (app LikeVideo (sample_env 8 ''B'') (like_request 1 ''D'') three_likes_db))))
       = liked_videos three_likes_db"
    by (simp add: route_defs outcome_defs sample_defs like_video_def insert_liked_def
        unlike_video_def delete_liked_def liked_match_def sql_eq_def
        truthy_num_def truthy_str_def next_rowid_def)
  from h(1,3) z nf l rm st show ?thesis by simp
qed

text \<open>
  Claim C10. A like request whose videoId is the empty string is answered exactly as
  one without a videoId, whatever the session, the store and the environment; for a
  logged-in user that answer is 400, the store is unchanged and no statement is issued.
\<close>

theorem like_video_empty_videoId_as_missing:
  "app LikeVideo env (req\<lparr>body_videoId := Some ''''\<rparr>) db
     = app LikeVideo env (req\<lparr>body_videoId := None\<rparr>) db
   \<and> (truthy_num (session_userId req) \<longrightarrow>
        app LikeVideo env (req\<lparr>body_videoId := Some ''''\<rparr>) db
          = (\<lparr>status = 400, body = JError ''Video ID is required''\<rparr>, db, []))"
  by (simp add: route_defs like_video_def truthy_str_def)

text \<open>User 1 sends an empty videoId over the store of three likes.\<close>

theorem like_video_empty_videoId_as_missing_witness:
  "truthy_num (session_userId (like_request 1 ''A''))
   \<and> app LikeVideo (sample_env 9 ''B'') ((like_request 1 ''A'')\<lparr>body_videoId := Some ''''\<rparr>)
         three_likes_db
       = app LikeVideo (sample_env 9 ''B'') ((like_request 1 ''A'')\<lparr>body_videoId := None\<rparr>)
           three_likes_db
   \<and> app LikeVideo (sample_env 9 ''B'') ((like_request 1 ''A'')\<lparr>body_videoId := Some ''''\<rparr>)
         three_likes_db
       = (\<lparr>status = 400, body = JError ''Video ID is required''\<rparr>, three_likes_db, [])"
proof -
  have h: "truthy_num (session_userId (like_request 1 ''A''))"
    by (simp add: like_request_def truthy_num_def)
  note t = like_video_empty_videoId_as_missing
      [of "sample_env 9 ''B''" "like_request 1 ''A''" three_likes_db]
  from t h show ?thesis
    by blast
qed

subsection \<open>The liked-videos aggregation\<close>

lemma order_by_desc_Nil: "order_by_desc k [] = []"
  by (simp add: order_by_desc_def)

lemma order_by_desc_Cons: "order_by_desc k (x # xs) = insert_desc k x (order_by_desc k xs)"
  by (simp add: order_by_desc_def)

lemma mset_insert_desc: "mset (insert_desc k x ys) = add_mset x (mset ys)"
  by (induction ys) auto

lemma mset_order_by_desc: "mset (order_by_desc k xs) = mset xs"
  by (induction xs) (simp_all add: order_by_desc_Nil order_by_desc_Cons mset_insert_desc)

lemma set_insert_desc: "set (insert_desc k x ys) = insert x (set ys)"
  by (induction ys) auto

lemma descending_insert_desc:
  "sorted_wrt (\<lambda>a b. k b \<le> k a) ys \<Longrightarrow> sorted_wrt (\<lambda>a b. k b \<le> k a) (insert_desc k x ys)"
  by (induction ys) (auto simp: set_insert_desc)

lemma descending_order_by_desc: "sorted_wrt (\<lambda>a b. k b \<le> k a) (order_by_desc k xs)"
  by (induction xs) (simp_all add: order_by_desc_Nil order_by_desc_Cons descending_insert_desc)

lemma promise_all_rejects: "Inl e \<in> set ps \<Longrightarrow> promise_all ps = Inl ()"
  by (induction ps) (auto split: sum.splits)

lemma promise_all_resolves: "promise_all (map Inr vs) = Inr vs"
  by (induction vs) simp_all

lemma fetch_details_rejected:
  "axios_get env i (stream_url vid) = Rejected \<Longrightarrow> fetch_details env i vid = Inl ()"
  by (simp add: fetch_details_def)

lemma fetch_at_position:
  assumes "i < length likes"
  shows "map (\<lambda>(i, vid). fetch_details env i vid) (enumerate 0 likes) ! i
           = fetch_details env i (likes ! i)"
  using assms by (simp add: nth_enumerate_eq)

lemma fetch_all_resolved:
  assumes "\<forall>i < length likes. axios_get env i (stream_url (likes ! i)) = Resolved (Some (ds i))"
  shows "map (\<lambda>(i, vid). fetch_details env i vid) (enumerate 0 likes)
           = map Inr (map (\<lambda>(i, vid). \<lparr>e_videoId = vid, e_title = d_title (ds i),
                 e_thumbnail = d_thumbnailUrl (ds i), e_channel = d_uploader (ds i),
                 e_duration = d_duration (ds i)\<rparr>) (enumerate 0 likes))"
proof -
  have "fetch_details env i vid = Inr \<lparr>e_videoId = vid, e_title = d_title (ds i),
                 e_thumbnail = d_thumbnailUrl (ds i), e_channel = d_uploader (ds i),
                 e_duration = d_duration (ds i)\<rparr>"
    if "(i, vid) \<in> set (enumerate 0 likes)" for i vid
  proof -
    from that have "i < length likes" and "likes ! i = vid"
      by (simp_all add: in_set_enumerate_eq)
    with assms have "axios_get env i (stream_url vid) = Resolved (Some (ds i))"
      by auto
    then show ?thesis
      by (simp add: fetch_details_def)
  qed
  then show ?thesis
    by auto
qed

text \<open>
  Claim C8. A logged-in user with no liked row, the store reporting no error, is
  answered 200 with the empty list; the only thing the request issues is the SELECT, so
  no upstream call is made.
\<close>

theorem liked_videos_empty_list:
  assumes "truthy_num (session_userId req)" and "db_error env = None"
    and "filter (\<lambda>r. sql_eq (lk_user_id r) (session_userId req)) (liked_videos db) = []"
  shows "app LikedVideos env req db
           = (\<lparr>status = 200, body = JLikedList []\<rparr>, db, [Db SelectLiked])"
  using assms
  by (simp add: route_defs liked_videos_list_def select_liked_def liked_rows_of_def
      order_by_desc_Nil enumerate_eq_zip)

text \<open>User 2 has no likes in the store where user 1 has three.\<close>

theorem liked_videos_empty_list_witness:
  "truthy_num (session_userId (list_request 2)) \<and> db_error (sample_env 9 ''B'') = None
   \<and> filter (\<lambda>r. sql_eq (lk_user_id r) (session_userId (list_request 2)))
        (liked_videos three_likes_db) = []
   \<and> app LikedVideos (sample_env 9 ''B'') (list_request 2) three_likes_db
       = (\<lparr>status = 200, body = JLikedList []\<rparr>, three_likes_db, [Db SelectLiked])"
proof -
  have h: "truthy_num (session_userId (list_request 2))" "db_error (sample_env 9 ''B'') = None"
    "filter (\<lambda>r. sql_eq (lk_user_id r) (session_userId (list_request 2)))
        (liked_videos three_likes_db) = []"
    by (simp_all add: sample_defs truthy_num_def sql_eq_def)
  from h liked_videos_empty_list [OF h] show ?thesis
    by blast
qed

text \<open>
  Claim C2. For a logged-in user and no store error: when the request for the liked
  video at some position of the list is rejected, the whole answer is 500 with an
  error body, not a list; the store is unchanged. Every request of the fan-out has
  been issued by then.
\<close>

theorem liked_videos_fails_when_one_fetch_fails:
  assumes "truthy_num (session_userId req)" and "db_error env = None"
    and "i < length (select_liked (session_userId req) db)"
    and "axios_get env i (stream_url (select_liked (session_userId req) db ! i)) = Rejected"
  shows "app LikedVideos env req db
           = (\<lparr>status = 500, body = JError ''Failed to fetch video details''\<rparr>, db,
              Db SelectLiked # map (\<lambda>vid. Axios (stream_url vid))
                                 (select_liked (session_userId req) db))"
proof -
  let ?likes = "select_liked (session_userId req) db"
  let ?ps = "map (\<lambda>(i, vid). fetch_details env i vid) (enumerate 0 ?likes)"
  have "?ps ! i = fetch_details env i (?likes ! i)"
    using assms(3) by (rule fetch_at_position)
  then have "?ps ! i = Inl ()"
    using assms(4) by (simp only: fetch_details_rejected)
  moreover have "i < length ?ps"
    using assms(3) by simp
  ultimately have "Inl () \<in> set ?ps"
    by (metis nth_mem)
  then have "promise_all ?ps = Inl ()"
    by (rule promise_all_rejects)
  then show ?thesis
    using assms(1,2) by (simp add: route_defs liked_videos_list_def Let_def)
qed

lemma select_liked_three: "select_liked (Some 1) three_likes_db = [Some ''C'', Some ''B'', Some ''A'']"
  by (simp add: select_liked_def liked_rows_of_def three_likes_db_def sql_eq_def
      order_by_desc_def)

text \<open>
  The liked ids of user 1 are C, B, A; the upstream rejects the stream of B (position
  1) and answers for C and A.
\<close>

theorem liked_videos_fails_when_one_fetch_fails_witness:
  "truthy_num (session_userId (list_request 1)) \<and> db_error (sample_env 9 ''B'') = None
   \<and> select_liked (session_userId (list_request 1)) three_likes_db
       = [Some ''C'', Some ''B'', Some ''A'']
   \<and> axios_get (sample_env 9 ''B'') 1 (stream_url (Some ''B'')) = Rejected
   \<and> response_of (app LikedVideos (sample_env 9 ''B'') (list_request 1) three_likes_db)
       = \<lparr>status = 500, body = JError ''Failed to fetch video details''\<rparr>
   \<and> store_of (app LikedVideos (sample_env 9 ''B'') (list_request 1) three_likes_db)
       = three_likes_db"
proof -
  have u: "session_userId (list_request 1) = Some 1"
    by (simp add: list_request_def)
  have h: "truthy_num (session_userId (list_request 1))" "db_error (sample_env 9 ''B'') = None"
    by (simp_all add: sample_defs truthy_num_def)
  have l: "select_liked (session_userId (list_request 1)) three_likes_db
       = [Some ''C'', Some ''B'', Some ''A'']"
    unfolding u by (rule select_liked_three)
  have r: "axios_get (sample_env 9 ''B'') 1 (stream_url (Some ''B'')) = Rejected"
    by (simp add: sample_env_def)
  have "1 < length (select_liked (session_userId (list_request 1)) three_likes_db)"
    unfolding l by simp
  moreover have "axios_get (sample_env 9 ''B'') 1
      (stream_url (select_liked (session_userId (list_request 1)) three_likes_db ! 1)) = Rejected"
    unfolding l using r by simp
  ultimately have "app LikedVideos (sample_env 9 ''B'') (list_request 1) three_likes_db
           = (\<lparr>status = 500, body = JError ''Failed to fetch video details''\<rparr>, three_likes_db,
              Db SelectLiked # map (\<lambda>vid. Axios (stream_url vid))
                                 (select_liked (session_userId (list_request 1)) three_likes_db))"
    by (rule liked_videos_fails_when_one_fetch_fails [OF h])
  then show ?thesis
    using h l r by (simp add: outcome_defs)
qed

text \<open>
  Claim C3. For a logged-in user and no store error: when every request of the fan-out
  resolves with data, the answer is 200 with a list as long as the list of liked ids,
  whose entry at each position carries the id at that position and the four values of
  the data fetched for it: title as title, thumbnailUrl as thumbnail, uploader as
  channel, duration as duration. The liked ids are the video ids of the user's liked
  rows, each row once, in descending order of liked_at.
\<close>

theorem liked_videos_enriched_in_order:
  assumes "truthy_num (session_userId req)" and "db_error env = None"
    and "\<forall>i < length (select_liked (session_userId req) db).
           axios_get env i (stream_url (select_liked (session_userId req) db ! i))
             = Resolved (Some (ds i))"
  shows "\<exists>vs. response_of (app LikedVideos env req db) = \<lparr>status = 200, body = JLikedList vs\<rparr>
       \<and> length vs = length (select_liked (session_userId req) db)
       \<and> (\<forall>i < length vs.
            vs ! i = \<lparr>e_videoId = select_liked (session_userId req) db ! i,
                      e_title = d_title (ds i), e_thumbnail = d_thumbnailUrl (ds i),
                      e_channel = d_uploader (ds i), e_duration = d_duration (ds i)\<rparr>)
       \<and> select_liked (session_userId req) db
           = map lk_video_id (liked_rows_of (session_userId req) db)
       \<and> sorted_wrt (\<lambda>a b. lk_liked_at b \<le> lk_liked_at a) (liked_rows_of (session_userId req) db)
       \<and> mset (liked_rows_of (session_userId req) db)
           = mset (filter (\<lambda>r. sql_eq (lk_user_id r) (session_userId req)) (liked_videos db))"
proof -
  let ?likes = "select_liked (session_userId req) db"
  let ?vs = "map (\<lambda>(i, vid). \<lparr>e_videoId = vid, e_title = d_title (ds i),
                 e_thumbnail = d_thumbnailUrl (ds i), e_channel = d_uploader (ds i),
                 e_duration = d_duration (ds i)\<rparr>) (enumerate 0 ?likes)"
  have "promise_all (map (\<lambda>(i, vid). fetch_details env i vid) (enumerate 0 ?likes)) = Inr ?vs"
    unfolding fetch_all_resolved [OF assms(3)] by (rule promise_all_resolves)
  then have "response_of (app LikedVideos env req db) = \<lparr>status = 200, body = JLikedList ?vs\<rparr>"
    using assms(1,2) by (simp add: route_defs outcome_defs liked_videos_list_def Let_def)
  moreover have "length ?vs = length ?likes"
    by simp
  moreover have "\<forall>i < length ?vs.
            ?vs ! i = \<lparr>e_videoId = ?likes ! i,
                      e_title = d_title (ds i), e_thumbnail = d_thumbnailUrl (ds i),
                      e_channel = d_uploader (ds i), e_duration = d_duration (ds i)\<rparr>"
    by (simp add: nth_enumerate_eq)
  moreover have "?likes = map lk_video_id (liked_rows_of (session_userId req) db)"
    by (simp add: select_liked_def)
  moreover have "sorted_wrt (\<lambda>a b. lk_liked_at b \<le> lk_liked_at a)
      (liked_rows_of (session_userId req) db)"
    unfolding liked_rows_of_def by (rule descending_order_by_desc)
  moreover have "mset (liked_rows_of (session_userId req) db)
           = mset (filter (\<lambda>r. sql_eq (lk_user_id r) (session_userId req)) (liked_videos db))"
    unfolding liked_rows_of_def by (rule mset_order_by_desc)
  ultimately show ?thesis
    by blast
qed

text \<open>
  The liked ids of user 1 are C, B, A, liked at seconds 3, 2, 1; the upstream answers
  for all three, and the list comes back in that order with the data of each stream.
\<close>

theorem liked_videos_enriched_in_order_witness:
  "truthy_num (session_userId (list_request 1)) \<and> db_error (sample_env 9 ''Z'') = None
   \<and> select_liked (session_userId (list_request 1)) three_likes_db
       = [Some ''C'', Some ''B'', Some ''A'']
   \<and> axios_get (sample_env 9 ''Z'') 0 (stream_url (Some ''C''))
       = Resolved (Some (sample_data (stream_url (Some ''C''))))
   \<and> axios_get (sample_env 9 ''Z'') 1 (stream_url (Some ''B''))
       = Resolved (Some (sample_data (stream_url (Some ''B''))))
   \<and> axios_get (sample_env 9 ''Z'') 2 (stream_url (Some ''A''))
       = Resolved (Some (sample_data (stream_url (Some ''A''))))
   \<and> response_of (app LikedVideos (sample_env 9 ''Z'') (list_request 1) three_likes_db)
       = \<lparr>status = 200,
          body = JLikedList
            (map (\<lambda>v. \<lparr>e_videoId = Some v,
                        e_title = Some (''title of https://pipedapi.kavin.rocks/streams/'' @ v),
                        e_thumbnail = Some (''thumb of https://pipedapi.kavin.rocks/streams/'' @ v),
                        e_channel = Some ''uploader'', e_duration = Some ''212''\<rparr>)
               [''C'', ''B'', ''A''])\<rparr>
   \<and> map lk_liked_at (liked_rows_of (session_userId (list_request 1)) three_likes_db) = [3, 2, 1]"
proof -
  let ?likes = "select_liked (session_userId (list_request 1)) three_likes_db"
  have u: "session_userId (list_request 1) = Some 1"
    by (simp add: list_request_def)
  have h: "truthy_num (session_userId (list_request 1))" "db_error (sample_env 9 ''Z'') = None"
    by (simp_all add: sample_defs truthy_num_def)
  have l: "?likes = [Some ''C'', Some ''B'', Some ''A'']"
    unfolding u by (rule select_liked_three)
  have a: "axios_get (sample_env 9 ''Z'') i (stream_url (Some v))
             = Resolved (Some (sample_data (stream_url (Some v))))"
    if "v \<in> {''C'', ''B'', ''A''}" for i v
    using that by (auto simp: sample_env_def stream_url_def template_str_def)
  have all: "\<forall>i < length ?likes. axios_get (sample_env 9 ''Z'') i (stream_url (?likes ! i))
       = Resolved (Some (sample_data (stream_url (?likes ! i))))"
    unfolding l by (auto simp: a less_Suc_eq numeral_3_eq_3)
  from liked_videos_enriched_in_order [OF h all] obtain vs where
    r: "response_of (app LikedVideos (sample_env 9 ''Z'') (list_request 1) three_likes_db)
          = \<lparr>status = 200, body = JLikedList vs\<rparr>"
    and len: "length vs = length ?likes"
    and nth: "\<forall>i < length vs.
          vs ! i = \<lparr>e_videoId = ?likes ! i,
                    e_title = d_title (sample_data (stream_url (?likes ! i))),
                    e_thumbnail = d_thumbnailUrl (sample_data (stream_url (?likes ! i))),
                    e_channel = d_uploader (sample_data (stream_url (?likes ! i))),
                    e_duration = d_duration (sample_data (stream_url (?likes ! i)))\<rparr>"
    by blast
  from len l have three: "length vs = 3"
    by simp
  then have "vs = [vs ! 0, vs ! 1, vs ! 2]"
    by (auto intro!: nth_equalityI simp: less_Suc_eq numeral_3_eq_3 numeral_2_eq_2)
  also have "\<dots> = map (\<lambda>v. \<lparr>e_videoId = Some v,
                        e_title = Some (''title of https://pipedapi.kavin.rocks/streams/'' @ v),
                        e_thumbnail = Some (''thumb of https://pipedapi.kavin.rocks/streams/'' @ v),
                        e_channel = Some ''uploader'', e_duration = Some ''212''\<rparr>)
               [''C'', ''B'', ''A'']"
    using nth three
    by (simp add: l sample_data_def stream_url_def template_str_def PIPED_API_BASE_def)
  finally have vs: "vs = map (\<lambda>v. \<lparr>e_videoId = Some v,
                        e_title = Some (''title of https://pipedapi.kavin.rocks/streams/'' @ v),
                        e_thumbnail = Some (''thumb of https://pipedapi.kavin.rocks/streams/'' @ v),
                        e_channel = Some ''uploader'', e_duration = Some ''212''\<rparr>)
               [''C'', ''B'', ''A'']" .
  have t: "map lk_liked_at (liked_rows_of (session_userId (list_request 1)) three_likes_db) = [3, 2, 1]"
    unfolding u
    by (simp add: liked_rows_of_def three_likes_db_def sql_eq_def order_by_desc_def)
  show ?thesis
    using h l a [of "''C''" 0] a [of "''B''" 1] a [of "''A''" 2] r t unfolding vs
    by simp
qed

end
